theory Spec2Isabelle
  imports Complex_Main "HOL-Library.Product_Lexorder"
begin

section \<open>Floating-point values\<close>

text \<open>
  The similarity engine of \<^verbatim>\<open>like_day.py\<close> computes with 64-bit floats (numpy, pandas).
  A float is modelled as a real number or one of the three special values; arithmetic on
  numbers is exact (rounding and overflow are not modelled), and the special values
  follow IEEE 754: a division by zero gives an infinity or NaN, never an exception.
  The sign of a zero is not modelled; every zero divisor that the engine can reach is
  a positive zero (Python's \<^verbatim>\<open>sum\<close> starts from the integer 0).
\<close>

datatype fval = Fin real | PInf | NInf | NaN

fun isnan :: "fval \<Rightarrow> bool" where
  "isnan NaN = True"
| "isnan _ = False"

fun fneg :: "fval \<Rightarrow> fval" where
  "fneg (Fin a) = Fin (- a)"
| "fneg PInf = NInf"
| "fneg NInf = PInf"
| "fneg NaN = NaN"

fun fadd :: "fval \<Rightarrow> fval \<Rightarrow> fval" where
  "fadd (Fin a) (Fin b) = Fin (a + b)"
| "fadd NaN _ = NaN"
| "fadd _ NaN = NaN"
| "fadd PInf NInf = NaN"
| "fadd NInf PInf = NaN"
| "fadd PInf _ = PInf"
| "fadd _ PInf = PInf"
| "fadd NInf _ = NInf"
| "fadd _ NInf = NInf"

definition fsub :: "fval \<Rightarrow> fval \<Rightarrow> fval" where
  "fsub a b = fadd a (fneg b)"

fun fsign :: "real \<Rightarrow> fval \<Rightarrow> fval" where
  "fsign s PInf = (if s > 0 then PInf else if s < 0 then NInf else NaN)"
| "fsign s NInf = (if s > 0 then NInf else if s < 0 then PInf else NaN)"
| "fsign s x = x"

fun fmul :: "fval \<Rightarrow> fval \<Rightarrow> fval" where
  "fmul (Fin a) (Fin b) = Fin (a * b)"
| "fmul NaN _ = NaN"
| "fmul _ NaN = NaN"
| "fmul (Fin a) b = fsign a b"
| "fmul a (Fin b) = fsign b a"
| "fmul PInf b = b"
| "fmul NInf b = fneg b"

fun fdiv :: "fval \<Rightarrow> fval \<Rightarrow> fval" where
  "fdiv (Fin a) (Fin b) =
     (if b \<noteq> 0 then Fin (a / b)
      else if a > 0 then PInf else if a < 0 then NInf else NaN)"
| "fdiv NaN _ = NaN"
| "fdiv _ NaN = NaN"
| "fdiv (Fin a) _ = Fin 0"
| "fdiv PInf (Fin b) = (if b \<ge> 0 then PInf else NInf)"
| "fdiv NInf (Fin b) = (if b \<ge> 0 then NInf else PInf)"
| "fdiv _ _ = NaN"

fun fsqrt :: "fval \<Rightarrow> fval" where
  "fsqrt (Fin a) = (if a \<ge> 0 then Fin (sqrt a) else NaN)"
| "fsqrt PInf = PInf"
| "fsqrt _ = NaN"

fun fabs :: "fval \<Rightarrow> fval" where
  "fabs (Fin a) = Fin \<bar>a\<bar>"
| "fabs NaN = NaN"
| "fabs _ = PInf"

text \<open>
  The position of a float in an ascending sort: the numbers in their order between the
  infinities, NaN last (the \<^verbatim>\<open>na_position\<close> of pandas). The IEEE comparisons
  \<open>feq\<close> and \<open>flt\<close> are false as soon as one side is NaN.
\<close>

fun fkey :: "fval \<Rightarrow> nat \<times> real" where
  "fkey NInf = (0, 0)"
| "fkey (Fin a) = (1, a)"
| "fkey PInf = (2, 0)"
| "fkey NaN = (3, 0)"

definition feq :: "fval \<Rightarrow> fval \<Rightarrow> bool" where
  "feq a b = (\<not> isnan a \<and> \<not> isnan b \<and> a = b)"

definition flt :: "fval \<Rightarrow> fval \<Rightarrow> bool" where
  "flt a b = (\<not> isnan a \<and> \<not> isnan b \<and> fkey a < fkey b)"


section \<open>The numpy and pandas primitives the engine calls\<close>

definition np_sum :: "fval list \<Rightarrow> fval" where
  "np_sum xs = foldl fadd (Fin 0) xs"

text \<open>\<^verbatim>\<open>ndarray.mean\<close>: the sum over the number of elements (NaN on the empty array).\<close>

definition np_mean :: "fval list \<Rightarrow> fval" where
  "np_mean xs = fdiv (np_sum xs) (Fin (real (length xs)))"

definition np_dot :: "fval list \<Rightarrow> fval list \<Rightarrow> fval" where
  "np_dot xs ys = np_sum (map2 fmul xs ys)"

definition np_norm :: "fval list \<Rightarrow> fval" where
  "np_norm xs = fsqrt (np_sum (map (\<lambda>x. fmul x x) xs))"

text \<open>
  The reductions of a pandas Series skip NaN entries. \<^verbatim>\<open>Series.std\<close> is the sample
  standard deviation (one delta degree of freedom): NaN when fewer than two entries
  are left. \<^verbatim>\<open>Series.max\<close> and \<^verbatim>\<open>Series.min\<close> are NaN when nothing is left.
\<close>

definition dropna :: "fval list \<Rightarrow> fval list" where
  "dropna xs = filter (\<lambda>x. \<not> isnan x) xs"

definition Series_mean :: "fval list \<Rightarrow> fval" where
  "Series_mean xs = np_mean (dropna xs)"

definition Series_std :: "fval list \<Rightarrow> fval" where
  "Series_std xs =
     (let ys = dropna xs; avg = np_mean ys
      in if length ys \<le> 1 then NaN
         else fsqrt (fdiv (np_sum (map (\<lambda>y. fmul (fsub avg y) (fsub avg y)) ys))
                          (Fin (real (length ys) - 1))))"

definition fmax :: "fval \<Rightarrow> fval \<Rightarrow> fval" where
  "fmax a b = (if fkey a \<le> fkey b then b else a)"

definition fmin :: "fval \<Rightarrow> fval \<Rightarrow> fval" where
  "fmin a b = (if fkey b \<le> fkey a then b else a)"

definition Series_max :: "fval list \<Rightarrow> fval" where
  "Series_max xs = (case dropna xs of [] \<Rightarrow> NaN | y # ys \<Rightarrow> foldl fmax y ys)"

definition Series_min :: "fval list \<Rightarrow> fval" where
  "Series_min xs = (case dropna xs of [] \<Rightarrow> NaN | y # ys \<Rightarrow> foldl fmin y ys)"

section \<open>Data model\<close>

text \<open>
  One row of the hourly frames handed to \<^verbatim>\<open>find_like_days\<close>: the date (as a day
  number), the hour ending, and the value of every feature column. The frames carry
  every feature column (the assembler's inner join) with finite values, so a column
  is a total function into the reals.
\<close>

record hourly_row =
  date :: int
  hour_ending :: int
  vals :: "string \<Rightarrow> real"

text \<open>One row of \<^verbatim>\<open>raw_results\<close>: the date and the dict of per-feature raw distances.\<close>

record raw_row =
  raw_date :: int
  raw_feat :: "(string \<times> fval) list"

text \<open>One row of the returned frame.\<close>

record match_result =
  m_date :: int
  rank :: nat
  distance :: fval
  similarity :: fval

datatype py_error = ValueError string

definition FEATURE_COLS :: "string list" where
  "FEATURE_COLS = [''lmp_total'', ''lmp_system_energy_price'',
                   ''lmp_congestion_price'', ''lmp_marginal_loss_price'']"

section \<open>The distance of two hourly curves\<close>

text \<open>
  \<^verbatim>\<open>_compute_metric(diff, metric, target_flat, hist_flat)\<close>. The function has no
  \<^verbatim>\<open>raise\<close> of its own; its arrays have one length (\<^verbatim>\<open>find_like_days\<close> only compares
  days of the target's hour count).
\<close>

definition compute_metric ::
  "fval list \<Rightarrow> string \<Rightarrow> fval list option \<Rightarrow> fval list option \<Rightarrow> fval" where
  "compute_metric diff metric target_flat hist_flat =
     (if metric = ''mae'' then np_mean (map fabs diff)
      else if metric = ''rmse'' then fsqrt (np_mean (map (\<lambda>x. fmul x x) diff))
      else if metric = ''euclidean'' then fsqrt (np_sum (map (\<lambda>x. fmul x x) diff))
      else if metric = ''cosine'' then
        (case (target_flat, hist_flat) of
           (Some t, Some h) \<Rightarrow>
             (let denom = fmul (np_norm t) (np_norm h)
              in if feq denom (Fin 0) then Fin 1
                 else fsub (Fin 1) (fdiv (np_dot t h) denom))
         | _ \<Rightarrow> np_mean (map fabs diff))
      else np_mean (map fabs diff))"

section \<open>Ranking the historical days\<close>

text \<open>
  Features and weights. A weight dict is the list of its items in insertion order (its
  keys are distinct); the loops of the source run over the keys and look the weight up,
  which is a loop over the items. Without a dict every column of \<^verbatim>\<open>feature_cols\<close>
  weighs 1.
\<close>

definition resolve_weights ::
  "(string \<times> real) list option \<Rightarrow> string list \<Rightarrow> (string \<times> real) list" where
  "resolve_weights feature_weights feature_cols =
     (case feature_weights of
        Some fw \<Rightarrow> if length fw > 0 then fw else map (\<lambda>col. (col, 1)) feature_cols
      | None \<Rightarrow> map (\<lambda>col. (col, 1)) feature_cols)"

text \<open>
  \<^verbatim>\<open>frame.sort_values(hour_col)[col].values\<close>. A day has one row per hour, so the
  order of the sorted rows does not depend on how the sort treats equal keys; the model
  sorts stably. The date and hour columns are the fields of the row (the defaults of
  \<^verbatim>\<open>date_col\<close> and \<^verbatim>\<open>hour_col\<close>).
\<close>

definition col_values :: "hourly_row list \<Rightarrow> string \<Rightarrow> fval list" where
  "col_values frame col = map (\<lambda>r. Fin (vals r col)) (sort_key hour_ending frame)"

text \<open>\<^verbatim>\<open>df_hist.groupby(date_col)\<close>: the dates in ascending order, each with its rows.\<close>

definition groupby_date :: "hourly_row list \<Rightarrow> (int \<times> hourly_row list) list" where
  "groupby_date df =
     map (\<lambda>dt. (dt, filter (\<lambda>r. date r = dt) df)) (sort (remdups (map date df)))"

text \<open>Pass 1: the raw per-feature distances of every historical day of the target's length.\<close>

definition day_row :: "hourly_row list \<Rightarrow> string list \<Rightarrow> string \<Rightarrow> int \<Rightarrow> hourly_row list \<Rightarrow> raw_row" where
  "day_row df_target feature_cols metric dt grp =
     \<lparr>raw_date = dt,
      raw_feat = map (\<lambda>col.
        (let t_vals = col_values df_target col;
             h_vals = col_values grp col;
             diff = map2 fsub t_vals h_vals
         in (col, compute_metric diff metric (Some t_vals) (Some h_vals)))) feature_cols\<rparr>"

definition raw_results :: "hourly_row list \<Rightarrow> hourly_row list \<Rightarrow> string list \<Rightarrow> string \<Rightarrow> raw_row list" where
  "raw_results df_target df_hist feature_cols metric =
     map (\<lambda>(dt, grp). day_row df_target feature_cols metric dt grp)
       (filter (\<lambda>(dt, grp). length grp = length df_target) (groupby_date df_hist))"

text \<open>\<^verbatim>\<open>raw_df[col]\<close>: a key missing from a row's dict is NaN in the frame.\<close>

definition df_col :: "raw_row list \<Rightarrow> string \<Rightarrow> fval list" where
  "df_col raw_df col =
     map (\<lambda>r. case map_of (raw_feat r) col of Some v \<Rightarrow> v | None \<Rightarrow> NaN) raw_df"

text \<open>Pass 2: mean and guarded standard deviation of a feature's distances over the pool.\<close>

definition feat_stats :: "raw_row list \<Rightarrow> string \<Rightarrow> fval \<times> fval" where
  "feat_stats raw_df col =
     (let mean = Series_mean (df_col raw_df col);
          std = Series_std (df_col raw_df col)
      in (mean, if feq std (Fin 0) \<or> isnan std then Fin 1 else std))"

text \<open>The loop that adds each feature's weighted normalised distance to the column.\<close>

fun blend :: "raw_row list \<Rightarrow> (string \<times> real) list \<Rightarrow> fval list \<Rightarrow> fval list" where
  "blend raw_df [] acc = acc"
| "blend raw_df ((col, w) # rest) acc =
     (let (mean, std) = feat_stats raw_df col;
          normalized = map (\<lambda>x. fdiv (fsub x mean) std) (df_col raw_df col)
      in blend raw_df rest (map2 fadd acc (map (fmul (Fin w)) normalized)))"

definition distance_column :: "raw_row list \<Rightarrow> (string \<times> real) list \<Rightarrow> fval list" where
  "distance_column raw_df weights =
     (let weight_sum = sum_list (map snd weights)
      in map (\<lambda>d. fdiv d (Fin weight_sum))
           (blend raw_df weights (map (\<lambda>r. Fin 0) raw_df)))"

text \<open>
  \<^verbatim>\<open>nsmallest(n, "distance")\<close> keeps the first n rows of the frame in ascending order of
  distance, rows of equal distance in their input order, NaN last; nothing for n below 1.
\<close>

definition nsmallest :: "int \<Rightarrow> (int \<times> fval) list \<Rightarrow> (int \<times> fval) list" where
  "nsmallest n rows = take (nat n) (sort_key (\<lambda>r. fkey (snd r)) rows)"

definition similarity_column :: "fval list \<Rightarrow> fval list" where
  "similarity_column ds =
     (let max_dist = Series_max ds;
          min_dist = Series_min ds;
          dist_range = fsub max_dist min_dist
      in if flt (Fin 0) dist_range
         then map (\<lambda>d. fsub (Fin 1) (fdiv (fsub d min_dist) dist_range)) ds
         else map (\<lambda>d. Fin 1) ds)"

definition find_like_days ::
  "hourly_row list \<Rightarrow> hourly_row list \<Rightarrow> (string \<times> real) list option \<Rightarrow> string list
     \<Rightarrow> int \<Rightarrow> string \<Rightarrow> py_error + match_result list" where
  "find_like_days df_target df_hist feature_weights feature_cols n_neighbors metric =
     (let weights = resolve_weights feature_weights feature_cols;
          n_hours = length df_target
      in if n_hours = 0 then Inl (ValueError ''Target date has no hourly data'')
         else
           (let raw_df = raw_results df_target df_hist (map fst weights) metric
            in if raw_df = [] then Inl (ValueError ''No historical days matched the target hours'')
               else
                 (let dists = distance_column raw_df weights;
                      results_df = nsmallest n_neighbors (zip (map raw_date raw_df) dists);
                      ranks = [1 ..< Suc (length results_df)];
                      sims = similarity_column (map snd results_df)
                  in Inr (map (\<lambda>((dt, d), (k, s)).
                            \<lparr>m_date = dt, rank = k, distance = d, similarity = s\<rparr>)
                          (zip results_df (zip ranks sims))))))"


section \<open>Notions used to state the properties\<close>

text \<open>The number of hourly rows a frame holds for a date.\<close>

definition hour_count :: "hourly_row list \<Rightarrow> int \<Rightarrow> nat" where
  "hour_count df dt = length (filter (\<lambda>r. date r = dt) df)"

text \<open>The historical dates that survive pass 1: those with the target's hour count.\<close>

definition surviving_dates :: "hourly_row list \<Rightarrow> hourly_row list \<Rightarrow> int list" where
  "surviving_dates df_target df_hist =
     filter (\<lambda>dt. hour_count df_hist dt = length df_target) (sort (remdups (map date df_hist)))"

text \<open>The rows \<^verbatim>\<open>nsmallest\<close> selects in a call of \<^verbatim>\<open>find_like_days\<close>.\<close>

definition selection ::
  "hourly_row list \<Rightarrow> hourly_row list \<Rightarrow> (string \<times> real) list option \<Rightarrow> string list
     \<Rightarrow> int \<Rightarrow> string \<Rightarrow> (int \<times> fval) list" where
  "selection tgt hist fw cols n metric =
     (let ws = resolve_weights fw cols;
          raw = raw_results tgt hist (map fst ws) metric
      in nsmallest n (zip (map raw_date raw) (distance_column raw ws)))"

text \<open>The similarity that \<^verbatim>\<open>similarity_column\<close> gives one distance of the column.\<close>

definition sim_of :: "fval list \<Rightarrow> fval \<Rightarrow> fval" where
  "sim_of ds d =
     (if flt (Fin 0) (fsub (Series_max ds) (Series_min ds))
      then fsub (Fin 1) (fdiv (fsub d (Series_min ds)) (fsub (Series_max ds) (Series_min ds)))
      else Fin 1)"

text \<open>A table of raw distances whose entries for the given columns are all numbers.\<close>

definition fin_table :: "raw_row list \<Rightarrow> string list \<Rightarrow> bool" where
  "fin_table raw_df cols =
     (\<forall>r \<in> set raw_df. \<forall>k \<in> set cols. \<exists>x. map_of (raw_feat r) k = Some (Fin x))"


subsection \<open>The blend as the specification words it\<close>

text \<open>
  Steps 2 and 3 of the specification, on real numbers: the mean and the sample standard
  deviation of a list; the raw distance that a row of \<^verbatim>\<open>raw_results\<close> records for a
  feature; the mean of a feature's raw distances over the whole pool and their standard
  deviation, with 1 in its place where it is zero or undefined (fewer than two days); the
  normalised distance; and the weighted sum of the normalised distances of a day.
\<close>

definition mean_of :: "real list \<Rightarrow> real" where
  "mean_of xs = sum_list xs / real (length xs)"

definition stdev_of :: "real list \<Rightarrow> real" where
  "stdev_of xs = sqrt (sum_list (map (\<lambda>x. (x - mean_of xs)\<^sup>2) xs) / (real (length xs) - 1))"

definition raw_value :: "raw_row \<Rightarrow> string \<Rightarrow> real" where
  "raw_value r k = (case map_of (raw_feat r) k of Some (Fin x) \<Rightarrow> x | _ \<Rightarrow> 0)"

definition pool_mean :: "raw_row list \<Rightarrow> string \<Rightarrow> real" where
  "pool_mean raw_df k = mean_of (map (\<lambda>r. raw_value r k) raw_df)"

definition pool_std :: "raw_row list \<Rightarrow> string \<Rightarrow> real" where
  "pool_std raw_df k =
     (let s = stdev_of (map (\<lambda>r. raw_value r k) raw_df)
      in if length raw_df < 2 \<or> s = 0 then 1 else s)"

definition zscore :: "raw_row list \<Rightarrow> string \<Rightarrow> raw_row \<Rightarrow> real" where
  "zscore raw_df k r = (raw_value r k - pool_mean raw_df k) / pool_std raw_df k"

definition weighted_sum :: "raw_row list \<Rightarrow> (string \<times> real) list \<Rightarrow> raw_row \<Rightarrow> real" where
  "weighted_sum raw_df weights r =
     (\<Sum>(k, w) \<leftarrow> weights. w * (raw_value r k - pool_mean raw_df k) / pool_std raw_df k)"

subsection \<open>The cosine distance as the specification words it\<close>

text \<open>
  One minus the dot product of the two vectors over the product of their Euclidean
  norms, and 1 when a norm is zero.
\<close>

definition euclid_norm :: "real list \<Rightarrow> real" where
  "euclid_norm xs = sqrt (\<Sum>x\<leftarrow>xs. x * x)"

definition dot_product :: "real list \<Rightarrow> real list \<Rightarrow> real" where
  "dot_product xs ys = sum_list (map2 (*) xs ys)"

definition cosine_distance :: "real list \<Rightarrow> real list \<Rightarrow> real" where
  "cosine_distance t h =
     (if euclid_norm t = 0 \<or> euclid_norm h = 0 then 1
      else 1 - dot_product t h / (euclid_norm t * euclid_norm h))"

section \<open>Small pools\<close>

text \<open>
  A target day of one hour, every column at 10, and two pools. In \<open>ex_hist\<close>, days 1
  to 3 hold one hour each, with every column at 10, 11 and 12, and day 4 holds two
  hours. In \<open>ex_spread\<close> three days of one hour have \<^verbatim>\<open>lmp_total\<close> at 10, 11
  and 12 and every other column at 10.
\<close>

definition ex_target :: "hourly_row list" where
  "ex_target = [\<lparr>date = 10, hour_ending = 1, vals = (\<lambda>c. 10)\<rparr>]"

definition ex_hist :: "hourly_row list" where
  "ex_hist = [\<lparr>date = 1, hour_ending = 1, vals = (\<lambda>c. 10)\<rparr>,
              \<lparr>date = 2, hour_ending = 1, vals = (\<lambda>c. 11)\<rparr>,
              \<lparr>date = 3, hour_ending = 1, vals = (\<lambda>c. 12)\<rparr>,
              \<lparr>date = 4, hour_ending = 1, vals = (\<lambda>c. 10)\<rparr>,
              \<lparr>date = 4, hour_ending = 2, vals = (\<lambda>c. 10)\<rparr>]"

definition ex_spread :: "hourly_row list" where
  "ex_spread = [\<lparr>date = 1, hour_ending = 1, vals = (\<lambda>c. 10)\<rparr>,
                \<lparr>date = 2, hour_ending = 1, vals = (\<lambda>c. if c = ''lmp_total'' then 11 else 10)\<rparr>,
                \<lparr>date = 3, hour_ending = 1, vals = (\<lambda>c. if c = ''lmp_total'' then 12 else 10)\<rparr>]"

section \<open>Pass 1 keeps the days of the target's hour count\<close>

lemma raw_dates: "map raw_date (raw_results tgt hist cols metric) = surviving_dates tgt hist"
  by (simp add: raw_results_def groupby_date_def surviving_dates_def hour_count_def
      day_row_def filter_map comp_def)

lemma length_raw_results:
  "length (raw_results tgt hist cols metric) = length (surviving_dates tgt hist)"
  using raw_dates [of tgt hist cols metric] by (metis length_map)

lemma raw_results_Nil:
  "raw_results tgt hist cols metric = [] \<longleftrightarrow> surviving_dates tgt hist = []"
  using length_raw_results [of tgt hist cols metric] by (metis length_0_conv)

lemma set_surviving_dates:
  "set (surviving_dates tgt hist) = {dt \<in> date ` set hist. hour_count hist dt = length tgt}"
  by (auto simp: surviving_dates_def)

lemma distinct_surviving_dates: "distinct (surviving_dates tgt hist)"
  by (simp add: surviving_dates_def)

lemma surviving_dates_Nil:
  "surviving_dates tgt hist = [] \<longleftrightarrow>
     \<not> (\<exists>dt \<in> date ` set hist. hour_count hist dt = length tgt)"
  unfolding set_empty [symmetric] set_surviving_dates by blast


section \<open>Failure modes\<close>

text \<open>
  Claim C6. \<^verbatim>\<open>find_like_days\<close> raises a ValueError exactly when the target day has no
  hourly rows, or the historical pool is empty, or no historical day has the target's
  hour count; it returns a frame exactly in the other cases, so a failed call returns
  nothing. An empty pool is an instance of the third case.
\<close>

theorem validation_error_iff:
  "((\<exists>msg. find_like_days df_target df_hist fw cols n metric = Inl (ValueError msg)) \<longleftrightarrow>
      (df_target = [] \<or> df_hist = [] \<or>
       \<not> (\<exists>dt \<in> date ` set df_hist. hour_count df_hist dt = length df_target)))
 \<and> ((\<exists>res. find_like_days df_target df_hist fw cols n metric = Inr res) \<longleftrightarrow>
      \<not> (df_target = [] \<or> df_hist = [] \<or>
       \<not> (\<exists>dt \<in> date ` set df_hist. hour_count df_hist dt = length df_target)))"
proof -
  have "df_hist = [] \<Longrightarrow> surviving_dates df_target df_hist = []"
    by (simp add: surviving_dates_def)
  then show ?thesis
    using surviving_dates_Nil [of df_target df_hist]
    by (auto simp: find_like_days_def raw_results_Nil Let_def)
qed

theorem validation_error_witness:
  "(\<exists>msg. find_like_days [] ex_hist None FEATURE_COLS 5 ''mae'' = Inl (ValueError msg))
 \<and> (\<exists>msg. find_like_days ex_target [] None FEATURE_COLS 5 ''mae'' = Inl (ValueError msg))
 \<and> (\<exists>msg. find_like_days ex_target (drop 3 ex_hist) None FEATURE_COLS 5 ''mae''
        = Inl (ValueError msg))
 \<and> (\<exists>res. find_like_days ex_target ex_hist None FEATURE_COLS 5 ''mae'' = Inr res)"
proof -
  have a: "\<not> (\<exists>dt \<in> date ` set (drop 3 ex_hist).
             hour_count (drop 3 ex_hist) dt = length ex_target)"
    by (simp add: ex_hist_def ex_target_def hour_count_def)
  have b: "\<exists>dt \<in> date ` set ex_hist. hour_count ex_hist dt = length ex_target"
    by (simp add: ex_hist_def ex_target_def hour_count_def)
  have c: "ex_target \<noteq> []" "ex_hist \<noteq> []"
    by (simp_all add: ex_hist_def ex_target_def)
  show ?thesis
    using a b c
      validation_error_iff [of "[]" ex_hist None FEATURE_COLS 5 "''mae''"]
      validation_error_iff [of ex_target "[]" None FEATURE_COLS 5 "''mae''"]
      validation_error_iff [of ex_target "drop 3 ex_hist" None FEATURE_COLS 5 "''mae''"]
      validation_error_iff [of ex_target ex_hist None FEATURE_COLS 5 "''mae''"]
    by blast
qed

section \<open>Unknown metric names\<close>

text \<open>
  Claim C9. For a metric name other than mae, rmse, euclidean and cosine,
  \<^verbatim>\<open>_compute_metric\<close> returns the value it returns for mae on the same arrays (the
  function is total: no branch raises), and \<^verbatim>\<open>find_like_days\<close> has the outcome it
  has for mae.
\<close>

theorem unknown_metric_falls_back_to_mae:
  assumes "metric \<notin> {''mae'', ''rmse'', ''euclidean'', ''cosine''}"
  shows "compute_metric diff metric t h = compute_metric diff ''mae'' t h
       \<and> find_like_days tgt hist fw cols n metric = find_like_days tgt hist fw cols n ''mae''"
proof -
  have m: "\<And>d a b. compute_metric d metric a b = compute_metric d ''mae'' a b"
    using assms by (simp add: compute_metric_def)
  have r: "\<And>cs. raw_results tgt hist cs metric = raw_results tgt hist cs ''mae''"
    by (simp add: raw_results_def day_row_def m)
  show ?thesis
    by (simp add: find_like_days_def Let_def r m)
qed

theorem unknown_metric_witness:
  "''manhattan'' \<notin> {''mae'', ''rmse'', ''euclidean'', ''cosine''}
 \<and> compute_metric [Fin 1, Fin (- 3)] ''manhattan'' None None
     = compute_metric [Fin 1, Fin (- 3)] ''mae'' None None
 \<and> compute_metric [Fin 1, Fin (- 3)] ''mae'' None None = Fin 2
 \<and> find_like_days ex_target ex_hist None FEATURE_COLS 5 ''manhattan''
     = find_like_days ex_target ex_hist None FEATURE_COLS 5 ''mae''"
proof -
  have h: "''manhattan'' \<notin> {''mae'', ''rmse'', ''euclidean'', ''cosine''}"
    by simp
  have v: "compute_metric [Fin 1, Fin (- 3)] ''mae'' None None = Fin 2"
    by (simp add: compute_metric_def np_mean_def np_sum_def)
  show ?thesis
    using h v unknown_metric_falls_back_to_mae [OF h, of "[Fin 1, Fin (- 3)]" None None
        ex_target ex_hist None FEATURE_COLS 5]
    by simp
qed

section \<open>The computation on finite values\<close>

lemma foldl_fadd_Fin: "foldl fadd (Fin a) (map Fin xs) = Fin (a + sum_list xs)"
  by (induction xs arbitrary: a) (simp_all add: add.assoc)

lemma np_sum_Fin: "np_sum (map Fin xs) = Fin (sum_list xs)"
  by (simp add: np_sum_def foldl_fadd_Fin)

lemma np_mean_Fin: "xs \<noteq> [] \<Longrightarrow> np_mean (map Fin xs) = Fin (mean_of xs)"
  by (simp add: np_mean_def np_sum_Fin mean_of_def)

lemma dropna_Fin: "dropna (map Fin xs) = map Fin xs"
  by (induction xs) (simp_all add: dropna_def)

lemma fsub_Fin [simp]: "fsub (Fin a) (Fin b) = Fin (a - b)"
  by (simp add: fsub_def)

lemma feq_Fin [simp]: "feq (Fin a) (Fin b) \<longleftrightarrow> a = b"
  by (simp add: feq_def)

lemma map2_fsub_Fin: "map2 fsub (map Fin xs) (map Fin ys) = map Fin (map2 (-) xs ys)"
  by (auto simp: zip_map_map)

lemma map_fabs_Fin: "map fabs (map Fin xs) = map Fin (map abs xs)"
  by simp

lemma map_fsq_Fin: "map (\<lambda>x. fmul x x) (map Fin xs) = map Fin (map (\<lambda>x. x * x) xs)"
  by simp

lemma sum_sq_nonneg: "0 \<le> sum_list (map (\<lambda>x. x * x) (xs :: real list))"
  by (induction xs) simp_all

lemma np_norm_Fin: "np_norm (map Fin xs) = Fin (sqrt (sum_list (map (\<lambda>x. x * x) xs)))"
  unfolding np_norm_def map_fsq_Fin np_sum_Fin by (simp add: sum_sq_nonneg)

lemma np_dot_Fin: "np_dot (map Fin xs) (map Fin ys) = Fin (sum_list (map2 (*) xs ys))"
proof -
  have "map2 fmul (map Fin xs) (map Fin ys) = map Fin (map2 (*) xs ys)"
    by (auto simp: zip_map_map)
  then show ?thesis by (simp only: np_dot_def np_sum_Fin)
qed

lemma compute_metric_cosine_Fin:
  "compute_metric diff ''cosine'' (Some (map Fin t)) (Some (map Fin h)) = Fin (cosine_distance t h)"
  by (simp add: compute_metric_def np_norm_Fin np_dot_Fin cosine_distance_def euclid_norm_def
      dot_product_def)

lemma compute_metric_Fin:
  assumes "d \<noteq> []"
  shows "\<exists>x. compute_metric (map Fin d) metric (Some (map Fin t)) (Some (map Fin h)) = Fin x"
proof -
  have mae: "np_mean (map fabs (map Fin d)) = Fin (mean_of (map abs d))"
    using np_mean_Fin [of "map abs d"] assms by (simp add: comp_def)
  have sq: "np_mean (map (\<lambda>x. fmul x x) (map Fin d)) = Fin (mean_of (map (\<lambda>x. x * x) d))"
    using np_mean_Fin [of "map (\<lambda>x. x * x) d"] assms by (simp add: comp_def)
  have nn: "0 \<le> mean_of (map (\<lambda>x. x * x) d)"
    by (simp add: mean_of_def sum_sq_nonneg)
  have eu: "np_sum (map (\<lambda>x. fmul x x) (map Fin d)) = Fin (\<Sum>x\<leftarrow>d. x * x)"
    using np_sum_Fin [of "map (\<lambda>x. x * x) d"] by (simp add: comp_def)
  show ?thesis
    unfolding compute_metric_def mae sq eu
    using nn sum_sq_nonneg [of d] compute_metric_cosine_Fin [of "map Fin d" t h]
    by (simp add: compute_metric_def)
qed

lemma col_values_Fin:
  "col_values frame col = map Fin (map (\<lambda>r. vals r col) (sort_key hour_ending frame))"
  by (simp add: col_values_def)

lemma length_col_values: "length (col_values frame col) = length frame"
  by (simp add: col_values_def)

lemma map_of_keyed: "k \<in> set ks \<Longrightarrow> map_of (map (\<lambda>c. (c, f c)) ks) k = Some (f k)"
  by (induction ks) auto

lemma day_row_Fin:
  assumes "tgt \<noteq> []" "length grp = length tgt" "k \<in> set cols"
  shows "\<exists>x. map_of (raw_feat (day_row tgt cols metric dt grp)) k = Some (Fin x)"
proof -
  let ?t = "map (\<lambda>r. vals r k) (sort_key hour_ending tgt)"
  let ?h = "map (\<lambda>r. vals r k) (sort_key hour_ending grp)"
  have d: "map2 fsub (col_values tgt k) (col_values grp k) = map Fin (map2 (-) ?t ?h)"
    unfolding col_values_Fin map2_fsub_Fin ..
  have "length (map2 (-) ?t ?h) = length tgt"
    using assms(2) by simp
  then have ne: "map2 (-) ?t ?h \<noteq> []"
    using assms(1) by (metis length_0_conv)
  obtain x where x: "compute_metric (map Fin (map2 (-) ?t ?h)) metric (Some (map Fin ?t)) (Some (map Fin ?h)) = Fin x"
    using compute_metric_Fin [OF ne] by blast
  have "raw_feat (day_row tgt cols metric dt grp) =
          map (\<lambda>col. (col, compute_metric (map2 fsub (col_values tgt col) (col_values grp col))
                 metric (Some (col_values tgt col)) (Some (col_values grp col)))) cols"
    by (simp add: day_row_def Let_def)
  then have "map_of (raw_feat (day_row tgt cols metric dt grp)) k =
          Some (compute_metric (map2 fsub (col_values tgt k) (col_values grp k))
                 metric (Some (col_values tgt k)) (Some (col_values grp k)))"
    using assms(3) by (simp only: map_of_keyed)
  also have "\<dots> = Some (Fin x)"
    by (simp only: col_values_Fin map2_fsub_Fin x)
  finally show ?thesis by blast
qed

lemma raw_results_fin_table:
  assumes "tgt \<noteq> []"
  shows "fin_table (raw_results tgt hist cols metric) cols"
  unfolding fin_table_def raw_results_def
  using day_row_Fin [OF assms] by auto

lemma df_col_Fin:
  assumes "fin_table raw cols" "k \<in> set cols"
  shows "df_col raw k = map (\<lambda>r. Fin (raw_value r k)) raw"
  unfolding df_col_def
proof (rule map_cong [OF refl])
  fix r assume "r \<in> set raw"
  then obtain x where "map_of (raw_feat r) k = Some (Fin x)"
    using assms by (auto simp: fin_table_def)
  then show "(case map_of (raw_feat r) k of None \<Rightarrow> NaN | Some v \<Rightarrow> v) = Fin (raw_value r k)"
    by (simp add: raw_value_def)
qed

lemma Series_mean_Fin: "xs \<noteq> [] \<Longrightarrow> Series_mean (map Fin xs) = Fin (mean_of xs)"
  by (simp add: Series_mean_def dropna_Fin np_mean_Fin del: map_map)

lemma sum_sq_dev_nonneg: "0 \<le> (\<Sum>x\<leftarrow>xs. (x - m)\<^sup>2 :: real)"
  by (induction xs) simp_all

lemma stdev_of_nonneg: "2 \<le> length xs \<Longrightarrow> 0 \<le> stdev_of xs"
  by (simp add: stdev_of_def sum_sq_dev_nonneg)

lemma Series_std_Fin:
  "Series_std (map Fin xs) = (if length xs \<le> 1 then NaN else Fin (stdev_of xs))"
proof (cases "length xs \<le> 1")
  case True
  then show ?thesis by (simp add: Series_std_def dropna_Fin Let_def)
next
  case False
  then have ne: "xs \<noteq> []" by auto
  let ?m = "mean_of xs"
  have "map (\<lambda>y. fmul (fsub (Fin ?m) y) (fsub (Fin ?m) y)) (map Fin xs)
          = map Fin (map (\<lambda>x. (x - ?m)\<^sup>2) xs)"
    by (simp add: power2_eq_square algebra_simps)
  then have "np_sum (map (\<lambda>y. fmul (fsub (Fin ?m) y) (fsub (Fin ?m) y)) (map Fin xs))
          = Fin (\<Sum>x\<leftarrow>xs. (x - ?m)\<^sup>2)"
    by (simp only: np_sum_Fin)
  moreover have "0 \<le> (\<Sum>x\<leftarrow>xs. (x - ?m)\<^sup>2) / (real (length xs) - 1)"
    using False by (simp add: sum_sq_dev_nonneg)
  ultimately show ?thesis
    using False
    by (simp add: Series_std_def dropna_Fin np_mean_Fin [OF ne] Let_def stdev_of_def)
qed

lemma feat_stats_Fin:
  assumes "fin_table raw cols" "k \<in> set cols" "raw \<noteq> []"
  shows "feat_stats raw k = (Fin (pool_mean raw k), Fin (pool_std raw k))"
proof -
  let ?xs = "map (\<lambda>r. raw_value r k) raw"
  have c: "df_col raw k = map Fin ?xs"
    using df_col_Fin [OF assms(1,2)] by (simp add: comp_def)
  have ne: "?xs \<noteq> []" using assms(3) by simp
  show ?thesis
    unfolding feat_stats_def c Series_std_Fin Series_mean_Fin [OF ne]
    by (auto simp: pool_mean_def pool_std_def Let_def)
qed

lemma pool_std_pos: "0 < pool_std raw k"
proof (cases "length raw < 2")
  case True
  then show ?thesis by (simp add: pool_std_def)
next
  case False
  then have "0 \<le> stdev_of (map (\<lambda>r. raw_value r k) raw)"
    by (intro stdev_of_nonneg) simp
  then show ?thesis
    by (auto simp: pool_std_def Let_def)
qed

lemma blend_Fin:
  assumes "fin_table raw cols" "raw \<noteq> []"
  shows "set (map fst ws) \<subseteq> set cols \<Longrightarrow>
         blend raw ws (map (\<lambda>r. Fin (f r)) raw)
           = map (\<lambda>r. Fin (f r + (\<Sum>(k, w) \<leftarrow> ws. w * zscore raw k r))) raw"
proof (induction ws arbitrary: f)
  case Nil
  then show ?case by simp
next
  case (Cons a ws)
  obtain k w where a: "a = (k, w)" by (cases a)
  have k: "k \<in> set cols" using Cons.prems a by simp
  have ws: "set (map fst ws) \<subseteq> set cols" using Cons.prems by simp
  have s0: "pool_std raw k \<noteq> 0" using pool_std_pos [of raw k] by simp
  have n: "map (\<lambda>x. fdiv (fsub x (Fin (pool_mean raw k))) (Fin (pool_std raw k))) (df_col raw k)
            = map (\<lambda>r. Fin (zscore raw k r)) raw"
    unfolding df_col_Fin [OF assms(1) k] using s0 by (simp add: zscore_def)
  have st: "map2 fadd (map (\<lambda>r. Fin (f r)) raw)
               (map (fmul (Fin w)) (map (\<lambda>r. Fin (zscore raw k r)) raw))
            = map (\<lambda>r. Fin (f r + w * zscore raw k r)) raw"
    by (simp add: zip_map_map zip_same_conv_map)
  have "blend raw (a # ws) (map (\<lambda>r. Fin (f r)) raw)
          = blend raw ws (map (\<lambda>r. Fin (f r + w * zscore raw k r)) raw)"
    unfolding a blend.simps feat_stats_Fin [OF assms(1) k assms(2)]
    by (simp only: Let_def prod.case n st)
  also have "\<dots> = map (\<lambda>r. Fin (f r + w * zscore raw k r + (\<Sum>(k, w) \<leftarrow> ws. w * zscore raw k r))) raw"
    by (rule Cons.IH [OF ws])
  finally show ?case
    by (simp add: a add.assoc)
qed

lemma weighted_sum_zscore:
  "weighted_sum raw ws r = (\<Sum>(k, w) \<leftarrow> ws. w * zscore raw k r)"
  by (simp add: weighted_sum_def zscore_def)

lemma distance_column_Fin:
  assumes "fin_table raw (map fst ws)" "raw \<noteq> []"
  shows "distance_column raw ws
           = map (\<lambda>r. fdiv (Fin (weighted_sum raw ws r)) (Fin (sum_list (map snd ws)))) raw"
proof -
  have "blend raw ws (map (\<lambda>r. Fin 0) raw)
          = map (\<lambda>r. Fin (0 + (\<Sum>(k, w) \<leftarrow> ws. w * zscore raw k r))) raw"
    by (rule blend_Fin [OF assms]) simp
  then show ?thesis
    by (simp add: distance_column_def weighted_sum_zscore Let_def)
qed

lemma length_similarity_column: "length (similarity_column ds) = length ds"
  by (simp add: similarity_column_def Let_def)

lemma assemble_columns:
  assumes "length rs = length xs" "length ss = length xs"
  shows "map m_date (map (\<lambda>((dt, d), (k, s)).
            \<lparr>m_date = dt, rank = k, distance = d, similarity = s\<rparr>) (zip xs (zip rs ss))) = map fst xs
       \<and> map distance (map (\<lambda>((dt, d), (k, s)).
            \<lparr>m_date = dt, rank = k, distance = d, similarity = s\<rparr>) (zip xs (zip rs ss))) = map snd xs
       \<and> map rank (map (\<lambda>((dt, d), (k, s)).
            \<lparr>m_date = dt, rank = k, distance = d, similarity = s\<rparr>) (zip xs (zip rs ss))) = rs
       \<and> map similarity (map (\<lambda>((dt, d), (k, s)).
            \<lparr>m_date = dt, rank = k, distance = d, similarity = s\<rparr>) (zip xs (zip rs ss))) = ss"
  using assms
proof (induction xs arbitrary: rs ss)
  case Nil
  then show ?case by simp
next
  case (Cons x xs)
  then obtain r rs' s ss' where "rs = r # rs'" "ss = s # ss'"
    by (metis length_Suc_conv)
  with Cons show ?case by (cases x) simp
qed

lemma find_like_days_Inr:
  assumes "find_like_days tgt hist fw cols n metric = Inr res"
  shows "tgt \<noteq> []"
    and "raw_results tgt hist (map fst (resolve_weights fw cols)) metric \<noteq> []"
    and "map m_date res = map fst (selection tgt hist fw cols n metric)"
    and "map distance res = map snd (selection tgt hist fw cols n metric)"
    and "map rank res = [1 ..< Suc (length (selection tgt hist fw cols n metric))]"
    and "map similarity res = similarity_column (map snd (selection tgt hist fw cols n metric))"
proof -
  let ?sel = "selection tgt hist fw cols n metric"
  show a: "tgt \<noteq> []"
    using assms by (auto simp: find_like_days_def Let_def split: if_splits)
  show b: "raw_results tgt hist (map fst (resolve_weights fw cols)) metric \<noteq> []"
    using assms by (auto simp: find_like_days_def Let_def split: if_splits)
  have r: "res = map (\<lambda>((dt, d), (k, s)). \<lparr>m_date = dt, rank = k, distance = d, similarity = s\<rparr>)
             (zip ?sel (zip [1 ..< Suc (length ?sel)] (similarity_column (map snd ?sel))))"
    using assms a b by (simp add: find_like_days_def selection_def Let_def)
  have l1: "length [1 ..< Suc (length ?sel)] = length ?sel" by (simp only: length_upt diff_Suc_1)
  have l2: "length (similarity_column (map snd ?sel)) = length ?sel"
    by (simp add: length_similarity_column)
  note c = assemble_columns [OF l1 l2, folded r]
  show "map m_date res = map fst ?sel" using c by blast
  show "map distance res = map snd ?sel" using c by blast
  show "map rank res = [1 ..< Suc (length ?sel)]" using c by blast
  show "map similarity res = similarity_column (map snd ?sel)" using c by blast
qed




lemma set_selection_subset:
  "set (selection tgt hist fw cols n metric)
     \<subseteq> set (zip (surviving_dates tgt hist)
                 (distance_column (raw_results tgt hist (map fst (resolve_weights fw cols)) metric)
                    (resolve_weights fw cols)))"
  unfolding selection_def nsmallest_def Let_def raw_dates
  using set_take_subset by (metis set_sort)

lemma result_in_selection:
  assumes "find_like_days tgt hist fw cols n metric = Inr res" "m \<in> set res"
  shows "(m_date m, distance m) \<in> set (selection tgt hist fw cols n metric)"
proof -
  have "map (\<lambda>m. (m_date m, distance m)) res = zip (map m_date res) (map distance res)"
    by (induction res) simp_all
  also have "\<dots> = selection tgt hist fw cols n metric"
    using find_like_days_Inr(3,4) [OF assms(1)] by (simp add: zip_map_fst_snd)
  finally show ?thesis
    using assms(2) by (metis (no_types, lifting) image_eqI list.set_map)
qed

section \<open>Days of another length\<close>

text \<open>
  Claim C5. A historical day whose number of hourly rows differs from the target's is
  skipped in pass 1, before any distance is computed (it has no row in
  \<^verbatim>\<open>raw_results\<close>), and never appears in the returned frame, whatever its values.
\<close>

theorem mismatched_days_excluded:
  assumes "hour_count df_hist dt \<noteq> length df_target"
  shows "dt \<notin> set (map raw_date (raw_results df_target df_hist feature_cols metric))
       \<and> (\<forall>res. find_like_days df_target df_hist fw cols n metric = Inr res
              \<longrightarrow> dt \<notin> m_date ` set res)"
proof -
  have a: "dt \<notin> set (surviving_dates df_target df_hist)"
    using assms by (simp add: set_surviving_dates)
  have "dt \<notin> m_date ` set res" if r: "find_like_days df_target df_hist fw cols n metric = Inr res" for res
  proof
    assume "dt \<in> m_date ` set res"
    then obtain m where m: "m \<in> set res" "m_date m = dt" by auto
    have "(m_date m, distance m) \<in> set (selection df_target df_hist fw cols n metric)"
      using result_in_selection [OF r m(1)] .
    then have "m_date m \<in> set (surviving_dates df_target df_hist)"
      using set_selection_subset [of df_target df_hist fw cols n metric]
      by (meson set_zip_leftD subsetD)
    with a m(2) show False by simp
  qed
  with a show ?thesis by (simp add: raw_dates)
qed


lemmas eval_defs = find_like_days_def resolve_weights_def raw_results_def groupby_date_def
  day_row_def col_values_def compute_metric_def np_mean_def np_sum_def fsub_def
  distance_column_def feat_stats_def df_col_def Series_mean_def Series_std_def dropna_def feq_def
  nsmallest_def similarity_column_def Series_max_def Series_min_def fmax_def fmin_def flt_def Let_def

lemma ex_run_default:
  "find_like_days ex_target ex_hist None FEATURE_COLS 5 ''mae'' =
     Inr [\<lparr>m_date = 1, rank = 1, distance = Fin (- 1), similarity = Fin 1\<rparr>,
          \<lparr>m_date = 2, rank = 2, distance = Fin 0, similarity = Fin (1 / 2)\<rparr>,
          \<lparr>m_date = 3, rank = 3, distance = Fin 1, similarity = Fin 0\<rparr>]"
  by (simp add: eval_defs ex_hist_def ex_target_def FEATURE_COLS_def)

theorem mismatched_days_witness:
  "hour_count ex_hist 4 \<noteq> length ex_target
 \<and> 4 \<notin> set (map raw_date (raw_results ex_target ex_hist FEATURE_COLS ''mae''))
 \<and> 4 \<notin> m_date ` set [\<lparr>m_date = 1, rank = 1, distance = Fin (- 1), similarity = Fin 1\<rparr>,
          \<lparr>m_date = 2, rank = 2, distance = Fin 0, similarity = Fin (1 / 2)\<rparr>,
          \<lparr>m_date = 3, rank = 3, distance = Fin 1, similarity = Fin 0\<rparr>]"
proof -
  have h: "hour_count ex_hist 4 \<noteq> length ex_target"
    by (simp add: hour_count_def ex_hist_def ex_target_def)
  show ?thesis
    using h mismatched_days_excluded [OF h, of FEATURE_COLS "''mae''" None FEATURE_COLS 5]
      ex_run_default
    by blast
qed

section \<open>Order and ranks of the returned rows\<close>



lemma fdiv_Fin_nonzero: "w \<noteq> 0 \<Longrightarrow> fdiv (Fin x) (Fin w) = Fin (x / w)"
  by simp





section \<open>Similarity scores\<close>

lemma similarity_column_sim_of: "similarity_column ds = map (sim_of ds) ds"
  by (simp add: similarity_column_def sim_of_def Let_def)

lemma result_similarity:
  assumes "find_like_days tgt hist fw cols n metric = Inr res" "m \<in> set res"
  shows "similarity m = sim_of (map distance res) (distance m)"
proof -
  have "map similarity res = map (sim_of (map distance res)) (map distance res)"
    using find_like_days_Inr(4,6) [OF assms(1)] by (simp only: similarity_column_sim_of)
  then have "map similarity res = map (\<lambda>m. sim_of (map distance res) (distance m)) res"
    by (simp add: comp_def)
  then show ?thesis
    using assms(2) by (simp only: map_eq_conv)
qed

lemma fkey_Fin_le [simp]: "fkey (Fin a) \<le> fkey (Fin b) \<longleftrightarrow> a \<le> b"
  by simp

lemma foldl_fmax_in: "foldl fmax y ys \<in> set (y # ys)"
  by (induction ys arbitrary: y) (auto simp: fmax_def)

lemma foldl_fmin_in: "foldl fmin y ys \<in> set (y # ys)"
  by (induction ys arbitrary: y) (auto simp: fmin_def)

lemma foldl_fmax_mono: "fkey y \<le> fkey (foldl fmax y ys)"
proof (induction ys arbitrary: y)
  case Nil
  then show ?case by simp
next
  case (Cons a ys)
  have "fkey y \<le> fkey (fmax y a)" by (simp add: fmax_def)
  also have "\<dots> \<le> fkey (foldl fmax (fmax y a) ys)" by (rule Cons.IH)
  finally show ?case by simp
qed

lemma foldl_fmin_mono: "fkey (foldl fmin y ys) \<le> fkey y"
proof (induction ys arbitrary: y)
  case Nil
  then show ?case by simp
next
  case (Cons a ys)
  have "fkey (foldl fmin (fmin y a) ys) \<le> fkey (fmin y a)" by (rule Cons.IH)
  also have "\<dots> \<le> fkey y" by (simp add: fmin_def)
  finally show ?case by simp
qed

lemma foldl_fmax_ge: "d \<in> set (y # ys) \<Longrightarrow> fkey d \<le> fkey (foldl fmax y ys)"
proof (induction ys arbitrary: y)
  case Nil
  then show ?case by simp
next
  case (Cons a ys)
  show ?case
  proof (cases "d \<in> set (fmax y a # ys)")
    case True
    then show ?thesis using Cons.IH [of "fmax y a"] by simp
  next
    case False
    then have "d = y \<or> d = a" using Cons.prems by auto
    then have "fkey d \<le> fkey (fmax y a)" by (auto simp: fmax_def)
    also have "\<dots> \<le> fkey (foldl fmax (fmax y a) ys)" by (rule foldl_fmax_mono)
    finally show ?thesis by simp
  qed
qed

lemma foldl_fmin_le: "d \<in> set (y # ys) \<Longrightarrow> fkey (foldl fmin y ys) \<le> fkey d"
proof (induction ys arbitrary: y)
  case Nil
  then show ?case by simp
next
  case (Cons a ys)
  show ?case
  proof (cases "d \<in> set (fmin y a # ys)")
    case True
    then show ?thesis using Cons.IH [of "fmin y a"] by simp
  next
    case False
    then have "d = y \<or> d = a" using Cons.prems by auto
    then have k: "fkey (fmin y a) \<le> fkey d" by (auto simp: fmin_def)
    have "fkey (foldl fmin (fmin y a) ys) \<le> fkey (fmin y a)" by (rule foldl_fmin_mono)
    also note k
    finally show ?thesis by simp
  qed
qed

lemma Series_max_props:
  assumes "dropna ds \<noteq> []"
  shows "Series_max ds \<in> set (dropna ds)" and "\<forall>d \<in> set (dropna ds). fkey d \<le> fkey (Series_max ds)"
proof -
  obtain y ys where e: "dropna ds = y # ys" using assms by (cases "dropna ds") auto
  show "Series_max ds \<in> set (dropna ds)"
    unfolding Series_max_def e using foldl_fmax_in [of y ys] by simp
  show "\<forall>d \<in> set (dropna ds). fkey d \<le> fkey (Series_max ds)"
    unfolding Series_max_def e using foldl_fmax_ge [of _ y ys] by simp
qed

lemma Series_min_props:
  assumes "dropna ds \<noteq> []"
  shows "Series_min ds \<in> set (dropna ds)" and "\<forall>d \<in> set (dropna ds). fkey (Series_min ds) \<le> fkey d"
proof -
  obtain y ys where e: "dropna ds = y # ys" using assms by (cases "dropna ds") auto
  show "Series_min ds \<in> set (dropna ds)"
    unfolding Series_min_def e using foldl_fmin_in [of y ys] by simp
  show "\<forall>d \<in> set (dropna ds). fkey (Series_min ds) \<le> fkey d"
    unfolding Series_min_def e using foldl_fmin_le [of _ y ys] by simp
qed

lemma Series_extrema_NaN:
  assumes "dropna ds = []"
  shows "Series_max ds = NaN" "Series_min ds = NaN"
  using assms by (simp_all add: Series_max_def Series_min_def)












section \<open>Weights that sum to zero\<close>

lemma fdiv_zero_nonfinite: "fdiv (Fin x) (Fin 0) \<in> {NaN, PInf, NInf}"
  by simp

lemma distances_nonfinite:
  assumes "find_like_days tgt hist fw cols n metric = Inr res"
    and "sum_list (map snd (resolve_weights fw cols)) = 0"
    and "m \<in> set res"
  shows "distance m \<in> {NaN, PInf, NInf}"
proof -
  let ?ws = "resolve_weights fw cols"
  let ?raw = "raw_results tgt hist (map fst ?ws) metric"
  have t: "tgt \<noteq> []" and r: "?raw \<noteq> []"
    using find_like_days_Inr(1,2) [OF assms(1)] by auto
  have "(m_date m, distance m) \<in> set (zip (surviving_dates tgt hist) (distance_column ?raw ?ws))"
    using result_in_selection [OF assms(1,3)] set_selection_subset by (rule rev_subsetD)
  then have "distance m \<in> set (distance_column ?raw ?ws)"
    by (rule set_zip_rightD)
  then have "distance m \<in> (\<lambda>r. fdiv (Fin (weighted_sum ?raw ?ws r)) (Fin 0)) ` set ?raw"
    unfolding distance_column_Fin [OF raw_results_fin_table [OF t] r] assms(2)
    by (simp only: set_map)
  then obtain x where e: "distance m = fdiv (Fin x) (Fin 0)"
    by (auto simp del: fdiv.simps(1))
  show ?thesis
    unfolding e by (rule fdiv_zero_nonfinite)
qed

lemma sim_of_nonfinite:
  assumes nf: "\<forall>d \<in> set ds. d \<in> {NaN, PInf, NInf}" and d: "d \<in> set ds"
  shows "sim_of ds d = (if PInf \<in> set ds \<and> NInf \<in> set ds then NaN else Fin 1)"
proof (cases "dropna ds = []")
  case True
  then have "PInf \<notin> set ds" "NInf \<notin> set ds"
    by (auto simp: dropna_def filter_empty_conv)
  then show ?thesis
    using True by (simp add: sim_of_def Series_extrema_NaN flt_def fsub_def)
next
  case False
  have sub: "set (dropna ds) \<subseteq> {PInf, NInf}"
    using nf by (auto simp: dropna_def)
  have mx: "Series_max ds \<in> {PInf, NInf}" and mn: "Series_min ds \<in> {PInf, NInf}"
    using Series_max_props(1) [OF False] Series_min_props(1) [OF False] sub by auto
  have dd: "d = NaN \<or> d = PInf \<or> d = NInf" using nf d by auto
  show ?thesis
  proof (cases "PInf \<in> set ds \<and> NInf \<in> set ds")
    case True
    then have "PInf \<in> set (dropna ds)" "NInf \<in> set (dropna ds)"
      by (simp_all add: dropna_def)
    then have "fkey PInf \<le> fkey (Series_max ds)" "fkey (Series_min ds) \<le> fkey NInf"
      using Series_max_props(2) [OF False] Series_min_props(2) [OF False] by auto
    then have "Series_max ds = PInf" "Series_min ds = NInf"
      using mx mn by auto
    then show ?thesis
      using True dd by (auto simp: sim_of_def flt_def fsub_def)
  next
    case b: False
    have "Series_max ds \<in> set ds" "Series_min ds \<in> set ds"
      using Series_max_props(1) [OF False] Series_min_props(1) [OF False]
      by (auto simp: dropna_def)
    then have "Series_max ds = Series_min ds"
      using b mx mn by auto
    then have "fsub (Series_max ds) (Series_min ds) = NaN"
      using mn by (auto simp: fsub_def)
    then show ?thesis
      using b by (simp add: sim_of_def flt_def)
  qed
qed

text \<open>
  Claim C10, amended. A non-empty weight dict whose weights sum to zero raises no error
  of its own: with a non-empty target and a historical day of its hour count the call
  returns a frame. Every returned distance is then NaN or an infinity, never a number.
  The similarities are all NaN when both infinities are among the returned distances,
  and all 1.0 otherwise (for instance when every distance is NaN).
\<close>

theorem zero_weight_sum:
  assumes "fw \<noteq> []" and "sum_list (map snd fw) = 0"
    and "df_target \<noteq> []"
    and "\<exists>dt \<in> date ` set df_hist. hour_count df_hist dt = length df_target"
  shows "\<exists>res. find_like_days df_target df_hist (Some fw) cols n metric = Inr res
           \<and> (\<forall>m \<in> set res. distance m \<in> {NaN, PInf, NInf})
           \<and> (PInf \<in> distance ` set res \<and> NInf \<in> distance ` set res \<longrightarrow>
                 (\<forall>m \<in> set res. similarity m = NaN))
           \<and> (\<not> (PInf \<in> distance ` set res \<and> NInf \<in> distance ` set res) \<longrightarrow>
                 (\<forall>m \<in> set res. similarity m = Fin 1))"
proof -
  have ws: "resolve_weights (Some fw) cols = fw"
    using assms(1) by (simp add: resolve_weights_def)
  have "surviving_dates df_target df_hist \<noteq> []"
    using assms(4) by (simp only: surviving_dates_Nil) simp
  then have "raw_results df_target df_hist (map fst fw) metric \<noteq> []"
    by (simp only: raw_results_Nil) simp
  then obtain res where r: "find_like_days df_target df_hist (Some fw) cols n metric = Inr res"
    using assms(3) by (simp add: find_like_days_def ws Let_def)
  have z: "sum_list (map snd (resolve_weights (Some fw) cols)) = 0"
    using assms(2) by (simp only: ws)
  have nf: "\<forall>m \<in> set res. distance m \<in> {NaN, PInf, NInf}"
    using distances_nonfinite [OF r z] by blast
  then have nf': "\<forall>d \<in> set (map distance res). d \<in> {NaN, PInf, NInf}"
    by simp
  have s: "similarity m = (if PInf \<in> distance ` set res \<and> NInf \<in> distance ` set res then NaN else Fin 1)"
    if m: "m \<in> set res" for m
  proof -
    have "distance m \<in> set (map distance res)" using m by simp
    then have "sim_of (map distance res) (distance m)
       = (if PInf \<in> set (map distance res) \<and> NInf \<in> set (map distance res) then NaN else Fin 1)"
      by (rule sim_of_nonfinite [OF nf'])
    then show ?thesis
      using result_similarity [OF r m] by simp
  qed
  have a: "PInf \<in> distance ` set res \<and> NInf \<in> distance ` set res \<longrightarrow>
                 (\<forall>m \<in> set res. similarity m = NaN)"
    using s by simp
  have b: "\<not> (PInf \<in> distance ` set res \<and> NInf \<in> distance ` set res) \<longrightarrow>
                 (\<forall>m \<in> set res. similarity m = Fin 1)"
    using s by simp
  show ?thesis
    using r nf a b by blast
qed

theorem zero_weight_sum_witness:
  "[(''lmp_total'', 1 :: real), (''lmp_congestion_price'', - 1)] \<noteq> []
 \<and> sum_list (map snd [(''lmp_total'', 1 :: real), (''lmp_congestion_price'', - 1)]) = 0
 \<and> ex_target \<noteq> []
 \<and> (\<exists>dt \<in> date ` set ex_spread. hour_count ex_spread dt = length ex_target)
 \<and> (\<exists>res. find_like_days ex_target ex_spread
               (Some [(''lmp_total'', 1), (''lmp_congestion_price'', - 1)]) FEATURE_COLS 3 ''mae'' = Inr res
           \<and> (\<forall>m \<in> set res. distance m \<in> {NaN, PInf, NInf})
           \<and> (PInf \<in> distance ` set res \<and> NInf \<in> distance ` set res \<longrightarrow>
                 (\<forall>m \<in> set res. similarity m = NaN))
           \<and> (\<not> (PInf \<in> distance ` set res \<and> NInf \<in> distance ` set res) \<longrightarrow>
                 (\<forall>m \<in> set res. similarity m = Fin 1)))"
proof -
  have a: "[(''lmp_total'', 1 :: real), (''lmp_congestion_price'', - 1)] \<noteq> []" by simp
  have b: "sum_list (map snd [(''lmp_total'', 1 :: real), (''lmp_congestion_price'', - 1)]) = 0"
    by simp
  have c: "ex_target \<noteq> []" by (simp add: ex_target_def)
  have d: "\<exists>dt \<in> date ` set ex_spread. hour_count ex_spread dt = length ex_target"
    by (simp add: ex_spread_def ex_target_def hour_count_def)
  show ?thesis
    by (rule conjI [OF a conjI [OF b conjI [OF c conjI [OF d zero_weight_sum [OF a b c d]]]]])
qed

text \<open>
  The claim as stated, with every similarity undefined, fails when the single weight is
  zero: all three distances are NaN, the range of the distances is NaN, the test
  \<^verbatim>\<open>dist_range > 0\<close> is false and every similarity is the number 1.0.
\<close>

theorem zero_weight_similarity_counterexample:
  "find_like_days ex_target ex_hist (Some [(''lmp_total'', 0)]) FEATURE_COLS 5 ''mae'' =
     Inr [\<lparr>m_date = 1, rank = 1, distance = NaN, similarity = Fin 1\<rparr>,
          \<lparr>m_date = 2, rank = 2, distance = NaN, similarity = Fin 1\<rparr>,
          \<lparr>m_date = 3, rank = 3, distance = NaN, similarity = Fin 1\<rparr>]"
  by (simp add: eval_defs ex_hist_def ex_target_def)

section \<open>The weighted blend\<close>








end
